theory Spec2Isabelle
  imports Complex_Main "HOL-Library.Signed_Division"
begin

section \<open>The SIR simulation: data model\<close>

text \<open>
  The development embeds the Store-Ignore-Recall simulation (the second \<open>package main\<close>
  of the source, with \<open>Sim.ConfigLoops\<close>, \<open>Sim.ApplyInputs\<close>, \<open>Sim.CalcEntropy\<close>,
  \<open>Sim.ApplyReward\<close> and \<open>Sim.TestAll\<close>).

  Conventions of the embedding:
  \<^item> a Go \<open>float32\<close> is a \<open>real\<close>: arithmetic is exact, and the values NaN and
    the infinities are outside the model;
  \<^item> a Go \<open>int\<close> is an \<open>int\<close>; the addition \<open>Counter.Cur + 1\<close>, the only arithmetic on
    integers here, is wrapped to 64 bits explicitly (\<open>wrap64\<close>), and \<open>%\<close> is the
    truncating \<open>smod\<close>;
  \<^item> a method call on a nil pointer and a failed type assertion are the error value
    \<open>NilPointer\<close>; every function that can panic returns \<open>error + 'a\<close>;
  \<^item> the mutable \<open>Sim\<close> struct is a record that each method takes and returns;
  \<^item> the diagnostic \<open>fmt.Printf\<close> of \<open>CalcEntropy\<close> writes to standard output only and
    is not part of the state.
\<close>

datatype error = NilPointer | RunFailed

text \<open>\<open>etime.Modes\<close> and \<open>etime.Times\<close>, restricted to the values the simulation uses.\<close>

datatype Modes = Train | Test

datatype Times = Run | Epoch | Trial | Cycle

text \<open>
  Modelled from the spec: the action enumeration of \<open>SIREnv\<close>, whose declaration is not
  among the source files (\<open>currentAction: enum{Store1,Store2,Ignore,Recall1,Recall2}\<close>).
\<close>

datatype Actions = Store1 | Store2 | Ignore | Recall1 | Recall2

text \<open>
  Modelled from the spec: the \<open>SIREnv\<close> struct, whose declaration is not among the source
  files. \<open>Act\<close>, \<open>RewVal\<close> and \<open>NoRewVal\<close> are the fields the source reads and writes;
  \<open>Correct\<close> is the "expected correct index for the current action"; \<open>Pats\<close> holds the
  pattern that \<open>State(name)\<close> returns for each element name (nil when there is none).
\<close>

record SIREnv =
  Act :: Actions
  Correct :: int
  RewVal :: real
  NoRewVal :: real
  Pats :: "string \<rightharpoonup> real list"

text \<open>
  Modelled from the spec: \<open>SIREnv.State\<close> and \<open>SIREnv.SetReward\<close> (not among the source
  files). "Reward is binary: 1.0 if indices match, else 0.0; written into a dedicated
  reward-input representation": the two values are the \<open>RewVal\<close> and \<open>NoRewVal\<close> that
  \<open>ConfigEnv\<close> sets to 1 and 0.
\<close>

definition State :: "SIREnv \<Rightarrow> string \<Rightarrow> real list option" where
  "State en element = Pats en element"

definition SetReward :: "int \<Rightarrow> SIREnv \<Rightarrow> SIREnv" where
  "SetReward netout en =
     en\<lparr>Pats := (Pats en)(''Rew'' \<mapsto> [if netout = Correct en then RewVal en else NoRewVal en])\<rparr>"

text \<open>The parts of a \<open>leabra.Layer\<close> and of its receiving paths that the simulation touches.\<close>

datatype LayerTypes = SuperLayer | InputLayer | TargetLayer | CompareLayer | OtherLayer

record Path =
  LrateInit :: real
  Lrate :: real

record Layer =
  Name :: string
  Type :: LayerTypes
  Off :: bool
  Ext :: "real list option"
  AvgM :: "real list"
  MaxIndex :: int
  RecvPaths :: "Path list"

record Config =
  NRuns :: int
  NEpochs :: int
  NTrials :: int
  NZero :: int
  TestInterval :: int

text \<open>
  The \<open>Sim\<close> struct. \<open>Net\<close> is the network's layer list in its order; \<open>Loops_Mode\<close> is
  \<open>ss.Loops.Mode\<close> and \<open>Loops_Cur\<close> the \<open>Counter.Cur\<close> of each loop of each stack;
  \<open>Stats_Ints\<close> and \<open>Stats_Floats\<close> are the integer and float tables of \<open>ss.Stats\<close>;
  \<open>Context_Mode\<close> is \<open>ss.Context.Mode\<close>.
\<close>

record Sim =
  BurstDaGain :: real
  DipDaGain :: real
  ModLearnRate :: bool
  EntropyMeasureType :: bool
  Config :: Config
  Net :: "Layer list"
  Loops_Mode :: Modes
  Loops_Cur :: "Modes \<times> Times \<rightharpoonup> int"
  Stats_Ints :: "string \<rightharpoonup> int"
  Stats_Floats :: "string \<rightharpoonup> real"
  Stats_Strings :: "string \<rightharpoonup> string"
  Envs :: "Modes \<rightharpoonup> SIREnv"
  Context_Mode :: Modes

section \<open>Network and statistics operations used by the simulation\<close>

text \<open>\<open>Network.LayerByName\<close>: the first layer of that name, nil when there is none.\<close>

definition LayerByName :: "Layer list \<Rightarrow> string \<Rightarrow> Layer option" where
  "LayerByName net nm = find (\<lambda>ly. Name ly = nm) net"

text \<open>Writing a layer back through the pointer that \<open>LayerByName\<close> returned.\<close>

fun SetLayer :: "Layer list \<Rightarrow> string \<Rightarrow> Layer \<Rightarrow> Layer list" where
  "SetLayer [] nm ly' = []"
| "SetLayer (ly # net) nm ly' = (if Name ly = nm then ly' # net else ly # SetLayer net nm ly')"

text \<open>\<open>Layer.LrateMult\<close>: every receiving path gets \<open>Lrate = LrateInit * mult\<close>.\<close>

definition LrateMult :: "real \<Rightarrow> Layer \<Rightarrow> Layer" where
  "LrateMult mult ly = ly\<lparr>RecvPaths := map (\<lambda>p. p\<lparr>Lrate := LrateInit p * mult\<rparr>) (RecvPaths ly)\<rparr>"

text \<open>\<open>Layer.ApplyExt\<close> and \<open>Layer.ApplyExt1DTsr\<close>: the pattern becomes the external input.\<close>

definition ApplyExt :: "real list \<Rightarrow> Layer \<Rightarrow> Layer" where
  "ApplyExt pats ly = ly\<lparr>Ext := Some pats\<rparr>"

text \<open>
  \<open>Network.InitExt\<close> of the leabra library ("initializes external input state -- call
  prior to applying external inputs to layers"): the external input of every layer that
  is not switched off is cleared.
\<close>

definition InitExt :: "Layer list \<Rightarrow> Layer list" where
  "InitExt net = map (\<lambda>ly. if Off ly then ly else ly\<lparr>Ext := None\<rparr>) net"

text \<open>\<open>Network.LayersByType\<close>: the names of the layers of one of the given types.\<close>

definition LayersByType :: "Layer list \<Rightarrow> LayerTypes list \<Rightarrow> string list" where
  "LayersByType net tys = map Name (filter (\<lambda>ly. Type ly \<in> set tys) net)"

text \<open>\<open>Stats.Int\<close>: the stored value, 0 (after a printed message) when the name is unknown.\<close>

definition Stats_Int :: "Sim \<Rightarrow> string \<Rightarrow> int" where
  "Stats_Int ss nm = (case Stats_Ints ss nm of Some v \<Rightarrow> v | None \<Rightarrow> 0)"

definition SetFloat32 :: "string \<Rightarrow> real \<Rightarrow> Sim \<Rightarrow> Sim" where
  "SetFloat32 nm v ss = ss\<lparr>Stats_Floats := (Stats_Floats ss)(nm \<mapsto> v)\<rparr>"

section \<open>CalcEntropy\<close>

text \<open>
  The loop of the first measure: \<open>maxAct = math32.Max(maxAct, TmpVals[i]); ent += TmpVals[i]\<close>.
\<close>

fun hidden_loop :: "real list \<Rightarrow> real \<times> real \<Rightarrow> real \<times> real" where
  "hidden_loop [] (maxAct, ent) = (maxAct, ent)"
| "hidden_loop (v # vs) (maxAct, ent) = hidden_loop vs (max maxAct v, ent + v)"

text \<open>The first measure, from the unit values of the Hidden layer.\<close>

definition hidden_entropy :: "real list \<Rightarrow> real" where
  "hidden_entropy TmpVals =
     (let (maxAct, ent) = hidden_loop TmpVals (0, 0);
          ent = ent / 10
      in if maxAct < 0.02 \<or> ent > 4 then 4
         else if ent < 0.25 then 0.25
         else ent)"

text \<open>The two loops of the second measure.\<close>

fun total_loop :: "real list \<Rightarrow> real \<Rightarrow> real" where
  "total_loop [] totalActivation = totalActivation"
| "total_loop (val # vs) totalActivation = total_loop vs (totalActivation + val)"

fun prob_loop :: "real \<Rightarrow> real list \<Rightarrow> real \<Rightarrow> real" where
  "prob_loop totalActivation [] ent = ent"
| "prob_loop totalActivation (val # vs) ent =
     (let prob = val / totalActivation
      in prob_loop totalActivation vs (if prob > 0 then ent - prob * ln prob else ent))"

text \<open>The second measure, from the unit values of the GPiThal layer.\<close>

definition gpithal_entropy :: "real list \<Rightarrow> real" where
  "gpithal_entropy TmpVals =
     (let totalActivation = total_loop TmpVals 0;
          ent = (if totalActivation > 0 then prob_loop totalActivation TmpVals 0 else 0);
          ent = ent / 2.77
      in if ent > 4 then 4
         else if ent < 0.25 then 0.25
         else ent)"

definition CalcEntropy :: "Sim \<Rightarrow> error + real" where
  "CalcEntropy ss =
     (if \<not> ModLearnRate ss then Inr 1
      else if EntropyMeasureType ss then
        (case LayerByName (Net ss) ''Hidden'' of
           None \<Rightarrow> Inl NilPointer
         | Some hid \<Rightarrow> Inr (hidden_entropy (AvgM hid)))
      else
        (case LayerByName (Net ss) ''GPiThal'' of
           None \<Rightarrow> Inl NilPointer
         | Some hid \<Rightarrow> Inr (gpithal_entropy (AvgM hid))))"

section \<open>ApplyReward\<close>

text \<open>
  \<open>Envs.ByMode(mode).(*SIREnv)\<close> panics when the mode has no environment. On a recall
  trial the method reads the index of the most active Output unit
  (\<open>out.Pools[0].Inhib.Act.MaxIndex\<close>), lets the environment set its reward, applies the
  environment's Rew pattern to the Rew layer, and multiplies the learning rates of
  MatrixGo, MatrixNoGo and RWPred by the entropy.
\<close>

definition record_lrate :: "string \<Rightarrow> Layer \<Rightarrow> Sim \<Rightarrow> Sim" where
  "record_lrate nm ly ss =
     (if length (RecvPaths ly) > 0 then SetFloat32 nm (Lrate (RecvPaths ly ! 0)) ss else ss)"

definition apply_lrates :: "real \<Rightarrow> Sim \<Rightarrow> error + Sim" where
  "apply_lrates ent ss =
     (case LayerByName (Net ss) ''MatrixGo'' of
        None \<Rightarrow> Inl NilPointer
      | Some matg0 \<Rightarrow>
     (case LayerByName (Net ss) ''MatrixNoGo'' of
        None \<Rightarrow> Inl NilPointer
      | Some matng0 \<Rightarrow>
     (case LayerByName (Net ss) ''RWPred'' of
        None \<Rightarrow> Inl NilPointer
      | Some rwpred0 \<Rightarrow>
          let matg = LrateMult ent matg0;
              matng = LrateMult ent matng0;
              rwpred = LrateMult ent rwpred0;
              net = SetLayer (SetLayer (SetLayer (Net ss) ''MatrixGo'' matg)
                      ''MatrixNoGo'' matng) ''RWPred'' rwpred;
              ss = ss\<lparr>Net := net\<rparr>;
              ss = record_lrate ''MatrixGoLRate'' matg ss;
              ss = record_lrate ''MatrixNoGoLRate'' matng ss;
              ss = record_lrate ''RWPredLRate'' rwpred ss
          in Inr ss)))"

definition ApplyReward :: "bool \<Rightarrow> Sim \<Rightarrow> error + Sim" where
  "ApplyReward train ss =
     (let mode = (if train then Train else Test) in
      case Envs ss mode of
        None \<Rightarrow> Inl NilPointer
      | Some en \<Rightarrow>
          if Act en \<noteq> Recall1 \<and> Act en \<noteq> Recall2 then Inr ss
          else
            (case LayerByName (Net ss) ''Output'' of
               None \<Rightarrow> Inl NilPointer
             | Some out \<Rightarrow>
                 let mxi = MaxIndex out;
                     en = SetReward mxi en;
                     ss = ss\<lparr>Envs := (Envs ss)(mode \<mapsto> en)\<rparr>
                 in (case State en ''Rew'' of
                       None \<Rightarrow> Inl NilPointer
                     | Some pats \<Rightarrow>
                    (case LayerByName (Net ss) ''Rew'' of
                       None \<Rightarrow> Inl NilPointer
                     | Some ly \<Rightarrow>
                         let ss = ss\<lparr>Net := SetLayer (Net ss) ''Rew'' (ApplyExt pats ly)\<rparr>
                         in (case CalcEntropy ss of
                               Inl e \<Rightarrow> Inl e
                             | Inr ent \<Rightarrow> apply_lrates ent ss)))))"

section \<open>ApplyInputs\<close>

text \<open>
  The loop over the names of the input and target layers. The layer named Rew is skipped;
  a layer for which the environment has no pattern is left as it is.
\<close>

fun apply_loop :: "SIREnv \<Rightarrow> string list \<Rightarrow> Layer list \<Rightarrow> error + Layer list" where
  "apply_loop ev [] net = Inr net"
| "apply_loop ev (lnm # lays) net =
     (if lnm = ''Rew'' then apply_loop ev lays net
      else
        (case LayerByName net lnm of
           None \<Rightarrow> Inl NilPointer
         | Some ly \<Rightarrow>
             (case State ev (Name ly) of
                None \<Rightarrow> apply_loop ev lays net
              | Some pats \<Rightarrow> apply_loop ev lays (SetLayer net lnm (ApplyExt pats ly)))))"

text \<open>
  \<open>SIREnv.Step\<close> and \<open>SIREnv.String\<close> are not among the source files; they are the
  parameters \<open>Step\<close> and \<open>String\<close>.
\<close>

definition ApplyInputs :: "(SIREnv \<Rightarrow> SIREnv) \<Rightarrow> (SIREnv \<Rightarrow> string) \<Rightarrow> Sim \<Rightarrow> error + Sim" where
  "ApplyInputs Step String ss =
     (case Envs ss (Context_Mode ss) of
        None \<Rightarrow> Inl NilPointer
      | Some ev0 \<Rightarrow>
          let ev = Step ev0;
              ss = ss\<lparr>Envs := (Envs ss)(Context_Mode ss \<mapsto> ev)\<rparr>;
              lays = LayersByType (Net ss) [InputLayer, TargetLayer];
              ss = ss\<lparr>Net := InitExt (Net ss)\<rparr>;
              ss = ss\<lparr>Stats_Strings := (Stats_Strings ss)(''TrialName'' \<mapsto> String ev)\<rparr>
          in (case apply_loop ev lays (Net ss) of
                Inl e \<Rightarrow> Inl e
              | Inr net \<Rightarrow> Inr (ss\<lparr>Net := net\<rparr>)))"

section \<open>TestAll and the callbacks of the Train Epoch loop\<close>

text \<open>
  \<open>Stacks.ResetAndRun(mode)\<close> of the looper library resets the counters of the mode's
  stack, makes the mode current and runs the stack. What the run does (every callback of
  the stack, any number of times) is the parameter \<open>RunStack\<close>, which may also fail.
\<close>

definition ResetCountersByMode :: "Modes \<Rightarrow> (Modes \<times> Times \<rightharpoonup> int) \<Rightarrow> (Modes \<times> Times \<rightharpoonup> int)" where
  "ResetCountersByMode mode cur =
     (\<lambda>(m, t). if m = mode then map_option (\<lambda>c. 0) (cur (m, t)) else cur (m, t))"

definition ResetAndRun :: "(Modes \<Rightarrow> Sim \<Rightarrow> error + Sim) \<Rightarrow> Modes \<Rightarrow> Sim \<Rightarrow> error + Sim" where
  "ResetAndRun RunStack mode ss =
     RunStack mode (ss\<lparr>Loops_Cur := ResetCountersByMode mode (Loops_Cur ss), Loops_Mode := mode\<rparr>)"

text \<open>\<open>SIREnv.Init\<close> is not among the source files; it is the parameter \<open>Init\<close>.\<close>

definition TestAll ::
  "(int \<Rightarrow> SIREnv \<Rightarrow> SIREnv) \<Rightarrow> (Modes \<Rightarrow> Sim \<Rightarrow> error + Sim) \<Rightarrow> Sim \<Rightarrow> error + Sim" where
  "TestAll Init RunStack ss =
     (case Envs ss Test of
        None \<Rightarrow> Inl NilPointer
      | Some ev \<Rightarrow>
          let ss = ss\<lparr>Envs := (Envs ss)(Test \<mapsto> Init 0 ev)\<rparr>
          in (case ResetAndRun RunStack Test ss of
                Inl e \<Rightarrow> Inl e
              | Inr ss \<Rightarrow> Inr (ss\<lparr>Loops_Mode := Train\<rparr>)))"

text \<open>The \<open>IsDone\<close> function registered as NZeroStop on the Train Epoch loop.\<close>

definition NZeroStop :: "Sim \<Rightarrow> bool" where
  "NZeroStop ss =
     (let stopNz = NZero (Config ss);
          stopNz = (if stopNz \<le> 0 then 2 else stopNz);
          curNZero = Stats_Int ss ''NZero'';
          stop = (curNZero \<ge> stopNz)
      in stop)"

text \<open>Addition of Go's 64-bit \<open>int\<close>: the sum wrapped into \<open>[-2^63, 2^63)\<close>.\<close>

definition wrap64 :: "int \<Rightarrow> int" where
  "wrap64 x = (x + 2 ^ 63) mod 2 ^ 64 - 2 ^ 63"

definition int64 :: "int \<Rightarrow> bool" where
  "int64 x \<longleftrightarrow> - (2 ^ 63) \<le> x \<and> x < 2 ^ 63"

text \<open>
  The condition of the TestAtInterval callback. \<open>&&\<close> evaluates its right operand, which
  reads the counter of the Train Epoch loop through the captured pointer, only when the
  interval is positive.
\<close>

definition TestAtInterval_cond :: "Sim \<Rightarrow> error + bool" where
  "TestAtInterval_cond ss =
     (if TestInterval (Config ss) > 0 then
        (case Loops_Cur ss (Train, Epoch) of
           None \<Rightarrow> Inl NilPointer
         | Some cur \<Rightarrow> Inr (wrap64 (cur + 1) smod TestInterval (Config ss) = 0))
      else Inr False)"

definition TestAtInterval ::
  "(int \<Rightarrow> SIREnv \<Rightarrow> SIREnv) \<Rightarrow> (Modes \<Rightarrow> Sim \<Rightarrow> error + Sim) \<Rightarrow> Sim \<Rightarrow> error + Sim" where
  "TestAtInterval Init RunStack ss =
     (case TestAtInterval_cond ss of
        Inl e \<Rightarrow> Inl e
      | Inr b \<Rightarrow> if b then TestAll Init RunStack ss else Inr ss)"

section \<open>The callback registries of the looper and the registration of ApplyReward\<close>



















section \<open>The Shannon measure in the words of the specification\<close>

text \<open>
  The specification's second measure: the unit values are normalised into a probability
  distribution, units of probability zero are skipped, the entropy is \<open>-\<Sum> p log p\<close>, and
  it is 0 when the total activation is 0.
\<close>

definition Shannon :: "real list \<Rightarrow> real" where
  "Shannon vals =
     (let total = sum_list vals
      in if total = 0 then 0
         else - (\<Sum>v\<leftarrow>vals. let p = v / total in if p = 0 then 0 else p * ln p))"

definition clamp :: "real \<Rightarrow> real" where
  "clamp x = max 0.25 (min 4 x)"

section \<open>Example states\<close>

text \<open>
  A state as \<open>New\<close>, \<open>ConfigEnv\<close> and \<open>ConfigNet\<close> leave it: the defaults of \<open>Defaults\<close> and
  of the \<open>Config\<close> struct tags, the layers that the methods look up (Hidden with four
  units here, GPiThal with its sixteen), both environments on a store trial, and all counters
  at 0. The environment's methods that are parameters of the model get a simple
  instance: a fixed schedule Store1, Ignore, Recall1 for \<open>Step\<close>.
\<close>

definition example_layer :: "string \<Rightarrow> LayerTypes \<Rightarrow> real list \<Rightarrow> Layer" where
  "example_layer nm ty acts =
     \<lparr>Name = nm, Type = ty, Off = False, Ext = None, AvgM = acts, MaxIndex = 0,
      RecvPaths = [\<lparr>LrateInit = 0.04, Lrate = 0.04\<rparr>]\<rparr>"

definition example_net :: "Layer list" where
  "example_net =
     [example_layer ''Rew'' InputLayer [0],
      example_layer ''RWPred'' OtherLayer [0],
      example_layer ''Input'' InputLayer [0, 0, 0, 0],
      example_layer ''CtrlInput'' InputLayer [0, 0, 0, 0, 0],
      example_layer ''Output'' TargetLayer [0, 0, 0, 0],
      example_layer ''Hidden'' SuperLayer [1, 0, 1, 1],
      example_layer ''MatrixGo'' OtherLayer [0, 0, 0, 0],
      example_layer ''MatrixNoGo'' OtherLayer [0, 0, 0, 0],
      example_layer ''GPiThal'' OtherLayer (replicate 16 1)]"

definition example_env :: SIREnv where
  "example_env =
     \<lparr>Act = Store1, Correct = 0, RewVal = 1, NoRewVal = 0,
      Pats = [''Input'' \<mapsto> [1, 0, 0, 0], ''CtrlInput'' \<mapsto> [1, 0, 0, 0, 0],
              ''Output'' \<mapsto> [1, 0, 0, 0], ''Rew'' \<mapsto> [0]]\<rparr>"

definition example_sim :: Sim where
  "example_sim =
     \<lparr>BurstDaGain = 1, DipDaGain = 1, ModLearnRate = False, EntropyMeasureType = False,
      Config = \<lparr>NRuns = 10, NEpochs = 200, NTrials = 100, NZero = 5, TestInterval = -1\<rparr>,
      Net = example_net,
      Loops_Mode = Train,
      Loops_Cur = [(Train, Run) \<mapsto> 0, (Train, Epoch) \<mapsto> 0, (Train, Trial) \<mapsto> 0,
                   (Train, Cycle) \<mapsto> 0, (Test, Epoch) \<mapsto> 0, (Test, Trial) \<mapsto> 0,
                   (Test, Cycle) \<mapsto> 0],
      Stats_Ints = [''Expt'' \<mapsto> 0, ''NZero'' \<mapsto> 0],
      Stats_Floats = Map.empty,
      Stats_Strings = Map.empty,
      Envs = [Train \<mapsto> example_env, Test \<mapsto> example_env],
      Context_Mode = Train\<rparr>"

definition example_Step :: "SIREnv \<Rightarrow> SIREnv" where
  "example_Step en =
     en\<lparr>Act := (case Act en of Store1 \<Rightarrow> Ignore | Ignore \<Rightarrow> Recall1 | _ \<Rightarrow> Store1)\<rparr>"

definition example_String :: "SIREnv \<Rightarrow> string" where
  "example_String en =
     (case Act en of Store1 \<Rightarrow> ''Store1'' | Store2 \<Rightarrow> ''Store2'' | Ignore \<Rightarrow> ''Ignore''
      | Recall1 \<Rightarrow> ''Recall1'' | Recall2 \<Rightarrow> ''Recall2'')"

definition example_Init :: "int \<Rightarrow> SIREnv \<Rightarrow> SIREnv" where
  "example_Init run en = en\<lparr>Act := Store1\<rparr>"

text \<open>A run of a stack that changes nothing: the current mode stays the mode of the run.\<close>

definition example_RunStack :: "Modes \<Rightarrow> Sim \<Rightarrow> error + Sim" where
  "example_RunStack mode ss = Inr ss"




text \<open>Variations of the example state.\<close>

definition example_population :: Sim where
  "example_population = example_sim\<lparr>ModLearnRate := True, EntropyMeasureType := True\<rparr>"

definition example_modulated :: Sim where
  "example_modulated = example_sim\<lparr>ModLearnRate := True\<rparr>"

definition example_no_layers :: Sim where
  "example_no_layers = example_sim\<lparr>EntropyMeasureType := True, Net := []\<rparr>"

definition example_streak :: Sim where
  "example_streak =
     example_sim\<lparr>Config := (Config example_sim)\<lparr>NZero := 0\<rparr>,
                  Stats_Ints := [''Expt'' \<mapsto> 0, ''NZero'' \<mapsto> 2]\<rparr>"

definition example_interval :: Sim where
  "example_interval =
     example_sim\<lparr>Config := (Config example_sim)\<lparr>TestInterval := 5\<rparr>,
                  Loops_Cur := (Loops_Cur example_sim)((Train, Epoch) \<mapsto> 4)\<rparr>"

text \<open>The example state after a rewarded recall trial: the Rew layer holds the pattern 1.\<close>

definition example_rewarded :: Sim where
  "example_rewarded =
     example_sim\<lparr>Net := SetLayer example_net ''Rew''
                           (ApplyExt [1] (example_layer ''Rew'' InputLayer [0]))\<rparr>"

text \<open>The example state on a recall trial whose correct answer is unit 0.\<close>

definition example_recall :: Sim where
  "example_recall = example_sim\<lparr>Envs := [Train \<mapsto> example_env\<lparr>Act := Recall1\<rparr>, Test \<mapsto> example_env]\<rparr>"

section \<open>Properties of CalcEntropy\<close>

lemma hidden_loop_eq: "hidden_loop vs (m, e) = (fold max vs m, e + sum_list vs)"
  by (induction vs arbitrary: m e) (simp_all add: max.commute add.assoc)

lemma fold_max_less: "fold max vs (m::real) < c \<longleftrightarrow> m < c \<and> (\<forall>v\<in>set vs. v < c)"
  by (induction vs arbitrary: m) auto

lemma maxAct_low: "fold max vals (0::real) < 0.02 \<longleftrightarrow> (\<forall>v\<in>set vals. v < 0.02)"
  by (subst fold_max_less) simp

lemma clamp_code:
  "(if low \<or> (e::real) > 4 then 4 else if e < 0.25 then 0.25 else e) =
     (if low then 4 else clamp e)"
  by (simp add: clamp_def max_def min_def)


lemma hidden_entropy_eq:
  "hidden_entropy vals = (if \<forall>v\<in>set vals. v < 0.02 then 4 else clamp (sum_list vals / 10))"
  unfolding hidden_entropy_def hidden_loop_eq Let_def prod.case clamp_code maxAct_low
  by simp



lemma total_loop_eq: "total_loop vs t = t + sum_list vs"
  by (induction vs arbitrary: t) simp_all

lemma prob_loop_eq:
  "prob_loop t vs e = e - (\<Sum>v\<leftarrow>vs. if v / t > 0 then (v / t) * ln (v / t) else 0)"
  by (induction vs arbitrary: e) (simp_all add: Let_def)

text \<open>
  On activations that are not negative the code's tests \<open>totalActivation > 0\<close> and
  \<open>prob > 0\<close> are the specification's "total is not 0" and "probability is not 0", and
  the second measure is the Shannon entropy divided by the constant 2.77.
\<close>

lemma gpithal_entropy_eq:
  assumes "\<forall>v\<in>set vals. 0 \<le> v"
  shows "gpithal_entropy vals = clamp (Shannon vals / 2.77)"
proof -
  have nonneg: "0 \<le> sum_list vals"
    using assms by (simp add: sum_list_nonneg)
  have "(if 0 < sum_list vals then prob_loop (sum_list vals) vals 0 else 0) = Shannon vals"
  proof (cases "0 < sum_list vals")
    case True
    have "(\<Sum>v\<leftarrow>vals. if v / sum_list vals > 0 then (v / sum_list vals) * ln (v / sum_list vals) else 0)
        = (\<Sum>v\<leftarrow>vals. let p = v / sum_list vals in if p = 0 then 0 else p * ln p)"
    proof (rule arg_cong [where f = sum_list], rule map_cong [OF refl])
      fix v assume "v \<in> set vals"
      then have "0 \<le> v / sum_list vals" using assms True by simp
      then have "(0 < v / sum_list vals) = (v / sum_list vals \<noteq> 0)" by linarith
      then show "(if v / sum_list vals > 0 then (v / sum_list vals) * ln (v / sum_list vals) else 0)
          = (let p = v / sum_list vals in if p = 0 then 0 else p * ln p)"
        unfolding Let_def by (simp only: if_not_P if_P split: if_splits) auto
    qed
    with True show ?thesis by (simp add: prob_loop_eq Shannon_def Let_def)
  next
    case False
    with nonneg have "sum_list vals = 0" by simp
    then show ?thesis by (simp add: Shannon_def)
  qed
  then have "gpithal_entropy vals =
      (if Shannon vals / 2.77 > 4 then 4
       else if Shannon vals / 2.77 < 0.25 then 0.25 else Shannon vals / 2.77)"
    unfolding gpithal_entropy_def Let_def total_loop_eq add_0 by (simp only:)
  also have "\<dots> = clamp (Shannon vals / 2.77)"
    using clamp_code [of False "Shannon vals / 2.77"] by (simp only: simp_thms if_False)
  finally show ?thesis .
qed

text \<open>The natural logarithm of 16 is above the constant 2.77 that the code divides by.\<close>

lemma exp_277_400_less_2: "exp (277 / 400 :: real) < 2"
proof -
  obtain t :: real where t: "\<bar>t\<bar> \<le> \<bar>277 / 400\<bar>"
    and e: "exp (277 / 400 :: real) =
              (\<Sum>m<6. (277 / 400) ^ m / fact m) + (exp t / fact 6) * (277 / 400) ^ 6"
    using Maclaurin_exp_le [of "277 / 400" 6] by blast
  have "t \<le> 1" using t by simp
  then have "exp t \<le> exp 1" by simp
  then have t3: "exp t \<le> 3" using exp_le by linarith
  have "(exp t / fact 6) * (277 / 400) ^ 6 \<le> (3 / fact 6) * (277 / 400 :: real) ^ 6"
    by (intro mult_right_mono divide_right_mono t3) simp_all
  moreover have "(\<Sum>m<6. (277 / 400 :: real) ^ m / fact m) + (3 / fact 6) * (277 / 400) ^ 6 < 2"
    by (simp add: lessThan_nat_numeral lessThan_Suc fact_numeral power_divide)
  ultimately show ?thesis using e by linarith
qed

lemma ln_16_gt: "(277 / 100 :: real) < ln 16"
proof -
  have "exp (277 / 400 :: real) < exp (ln 2)"
    using exp_277_400_less_2 by simp
  then have "(277 / 400 :: real) < ln 2"
    by (simp only: exp_less_cancel_iff)
  moreover have "ln (16 :: real) = 4 * ln 2"
    using ln_realpow [of 2 4] by simp
  ultimately show ?thesis by simp
qed

text \<open>
  The Shannon entropy of \<open>n\<close> equally active units is \<open>ln n\<close>, the largest entropy that
  \<open>n\<close> units can have.
\<close>

lemma Shannon_uniform:
  assumes "0 < n" and "0 < c"
  shows "Shannon (replicate n c) = ln (real n)"
proof -
  have "c / (real n * c) = 1 / real n"
    using assms by simp
  moreover have "ln (1 / real n) = - ln (real n)"
    using assms by (simp add: ln_div)
  ultimately show ?thesis
    using assms by (simp add: Shannon_def Let_def sum_list_replicate)
qed

lemma Shannon_uniform16: "Shannon (replicate 16 1) = ln 16"
  using Shannon_uniform [of 16 1] by simp

text \<open>The two measures on a layer whose units are all at 0.\<close>

lemma hidden_entropy_zero: "hidden_entropy (replicate n 0) = 4"
  by (simp add: hidden_entropy_eq)

lemma gpithal_entropy_zero: "gpithal_entropy (replicate n 0) = 1/4"
  by (simp add: gpithal_entropy_eq Shannon_def sum_list_replicate clamp_def)

lemma example_Hidden:
  "LayerByName example_net ''Hidden'' = Some (example_layer ''Hidden'' SuperLayer [1, 0, 1, 1])"
  by (simp add: example_net_def LayerByName_def example_layer_def)

lemma example_GPiThal:
  "LayerByName example_net ''GPiThal'' = Some (example_layer ''GPiThal'' OtherLayer (replicate 16 1))"
  by (simp add: example_net_def LayerByName_def example_layer_def)

lemma AvgM_example_layer: "AvgM (example_layer nm ty acts) = acts"
  by (simp add: example_layer_def)

text \<open>
  Claim C8: when learning-rate modulation is switched off (\<open>ModLearnRate\<close> false),
  \<open>CalcEntropy\<close> returns exactly 1 in every state, whichever measure is selected, and
  before any layer is looked up: the result is 1 also for a network without layers.
\<close>

theorem CalcEntropy_unmodulated:
  "\<not> ModLearnRate ss \<Longrightarrow> CalcEntropy ss = Inr 1"
  by (simp add: CalcEntropy_def)

theorem CalcEntropy_unmodulated_witness:
  "\<not> ModLearnRate example_no_layers \<and> EntropyMeasureType example_no_layers \<and>
   Net example_no_layers = [] \<and> CalcEntropy example_no_layers = Inr 1"
  using CalcEntropy_unmodulated [of example_no_layers]
  by (simp add: example_no_layers_def example_sim_def)



text \<open>
  Claim C6: with the modulation on and the population-sum measure selected, the
  multiplier is the sum of the Hidden layer's unit activations divided by 10 and clamped
  into the interval from 0.25 to 4, except that it is 4 whenever every unit activation
  (so the layer's maximum) is below 0.02.
\<close>

theorem CalcEntropy_population_sum:
  assumes "ModLearnRate ss" and "EntropyMeasureType ss"
      and "LayerByName (Net ss) ''Hidden'' = Some hid"
  shows "CalcEntropy ss =
           Inr (if \<forall>v\<in>set (AvgM hid). v < 0.02 then 4
                else max 0.25 (min 4 (sum_list (AvgM hid) / 10)))"
  using assms by (simp add: CalcEntropy_def hidden_entropy_eq clamp_def)

theorem CalcEntropy_population_sum_witness:
  "ModLearnRate example_population \<and> EntropyMeasureType example_population \<and>
   LayerByName (Net example_population) ''Hidden''
     = Some (example_layer ''Hidden'' SuperLayer [1, 0, 1, 1]) \<and>
   CalcEntropy example_population = Inr (3/10)"
proof -
  have h: "ModLearnRate example_population" "EntropyMeasureType example_population"
    "LayerByName (Net example_population) ''Hidden''
       = Some (example_layer ''Hidden'' SuperLayer [1, 0, 1, 1])"
    by (simp_all add: example_population_def example_sim_def example_Hidden)
  have "CalcEntropy example_population = Inr (3/10)"
    using CalcEntropy_population_sum [OF h] unfolding AvgM_example_layer by simp
  with h show ?thesis by simp
qed

text \<open>
  Claim C7 as stated fails: for sixteen GPiThal units of equal activation the Shannon
  entropy is \<open>ln 16\<close>, the maximum for sixteen units, so the stated multiplier is 1; the
  code divides by the constant 2.77 and returns \<open>ln 16 / 2.77\<close>, which is above 1.
\<close>

theorem CalcEntropy_Shannon_counterexample:
  "map_option AvgM (LayerByName (Net example_modulated) ''GPiThal'') = Some (replicate 16 1) \<and>
   CalcEntropy example_modulated
     \<noteq> Inr (clamp (Shannon (replicate 16 1) / ln (real (length (replicate 16 (1::real))))))"
proof -
  have net: "Net example_modulated = example_net"
    by (simp add: example_modulated_def example_sim_def)
  have "CalcEntropy example_modulated = Inr (gpithal_entropy (replicate 16 1))"
    unfolding CalcEntropy_def net example_GPiThal
    by (simp add: example_modulated_def example_sim_def AvgM_example_layer)
  also have "gpithal_entropy (replicate 16 1) = clamp (ln 16 / 2.77)"
    by (subst gpithal_entropy_eq) (simp_all add: Shannon_uniform16)
  finally have code: "CalcEntropy example_modulated = Inr (clamp (ln 16 / 2.77))" .
  have "1 < ln 16 / (2.77 :: real)" using ln_16_gt by simp
  then have "1 < clamp (ln 16 / 2.77)" by (simp add: clamp_def max_def min_def)
  moreover have "clamp (Shannon (replicate 16 1) / ln (real (length (replicate 16 (1::real))))) = 1"
    by (simp add: Shannon_uniform16 clamp_def)
  ultimately show ?thesis using code net example_GPiThal by (simp add: AvgM_example_layer)
qed

text \<open>
  Claim C7, amended: with the modulation on and the Shannon measure selected, on unit
  activations of the GPiThal layer that are not negative, the multiplier is the Shannon
  entropy of the normalised activations (units of probability zero skipped, 0 when the
  total is 0) divided by the fixed constant 2.77, whatever the number of units, and
  clamped into the interval from 0.25 to 4.
\<close>

theorem CalcEntropy_Shannon:
  assumes "ModLearnRate ss" and "\<not> EntropyMeasureType ss"
      and "LayerByName (Net ss) ''GPiThal'' = Some gpi"
      and "\<forall>v\<in>set (AvgM gpi). 0 \<le> v"
  shows "CalcEntropy ss = Inr (max 0.25 (min 4 (Shannon (AvgM gpi) / 2.77)))"
  using assms by (simp add: CalcEntropy_def gpithal_entropy_eq clamp_def)

theorem CalcEntropy_Shannon_witness:
  "ModLearnRate example_modulated \<and> \<not> EntropyMeasureType example_modulated \<and>
   LayerByName (Net example_modulated) ''GPiThal''
     = Some (example_layer ''GPiThal'' OtherLayer (replicate 16 1)) \<and>
   CalcEntropy example_modulated = Inr (max 0.25 (min 4 (ln 16 / 2.77)))"
proof -
  have h: "ModLearnRate example_modulated" "\<not> EntropyMeasureType example_modulated"
    "LayerByName (Net example_modulated) ''GPiThal''
       = Some (example_layer ''GPiThal'' OtherLayer (replicate 16 1))"
    "\<forall>v\<in>set (AvgM (example_layer ''GPiThal'' OtherLayer (replicate 16 1))). 0 \<le> v"
    by (simp_all add: example_modulated_def example_sim_def example_GPiThal AvgM_example_layer)
  have "CalcEntropy example_modulated = Inr (max 0.25 (min 4 (ln 16 / 2.77)))"
    using CalcEntropy_Shannon [OF h] unfolding AvgM_example_layer Shannon_uniform16 .
  with h(1-3) show ?thesis by simp
qed

section \<open>Properties of ApplyReward\<close>

text \<open>
  On a recall trial the method does write: in the example, where the most active Output
  unit is the correct one, the Rew layer receives the reward pattern 1.
\<close>

lemma ApplyReward_recall_example:
  "map_option Ext (LayerByName (Net (projr (ApplyReward True example_recall))) ''Rew'') = Some (Some [1])
   \<and> \<not> isl (ApplyReward True example_recall)"
  by (simp add: ApplyReward_def example_recall_def example_sim_def example_net_def
      example_layer_def example_env_def LayerByName_def SetReward_def State_def ApplyExt_def
      CalcEntropy_def apply_lrates_def LrateMult_def record_lrate_def SetFloat32_def Let_def)

text \<open>
  Claim C1: reward computation and the learning-rate multiplier happen only on recall
  trials. When the current action of the environment that \<open>ApplyReward\<close> reads is a store
  or ignore action, \<open>ApplyReward\<close> returns with the whole state as it was: no reward
  input is written to the network and no learning rate is adjusted.
\<close>

theorem ApplyReward_only_on_recall:
  assumes "Envs ss (if train then Train else Test) = Some en"
      and "Act en \<in> {Store1, Store2, Ignore}"
  shows "ApplyReward train ss = Inr ss"
  using assms by (auto simp: ApplyReward_def)

theorem ApplyReward_only_on_recall_witness:
  "Envs example_sim (if True then Train else Test) = Some example_env \<and>
   Act example_env \<in> {Store1, Store2, Ignore} \<and>
   ApplyReward True example_sim = Inr example_sim"
proof -
  have h: "Envs example_sim (if True then Train else Test) = Some example_env"
    "Act example_env \<in> {Store1, Store2, Ignore}"
    by (simp_all add: example_sim_def example_env_def)
  from ApplyReward_only_on_recall [OF h] h show ?thesis by simp
qed

section \<open>Properties of TestAll and of the Train Epoch callbacks\<close>

text \<open>
  The run of the Test stack starts with the current mode at Test; the mode that the run
  leaves is overwritten with Train.
\<close>

lemma TestAll_runs_in_Test:
  "Envs ss Test = Some ev \<Longrightarrow>
   TestAll Init RunStack ss =
     (case RunStack Test (ss\<lparr>Envs := (Envs ss)(Test \<mapsto> Init 0 ev),
                              Loops_Cur := ResetCountersByMode Test (Loops_Cur ss),
                              Loops_Mode := Test\<rparr>) of
        Inl e \<Rightarrow> Inl e
      | Inr s \<Rightarrow> Inr (s\<lparr>Loops_Mode := Train\<rparr>))"
  by (simp add: TestAll_def ResetAndRun_def Let_def)

text \<open>
  Claim C3: a Test sub-run started by \<open>TestAll\<close> from a running Train context, where the
  current mode of the Stacks manager is Train, leaves the current mode, when \<open>TestAll\<close>
  returns, at the value it had immediately before the call, whatever the run of the
  Test stack did to it.
\<close>

theorem TestAll_restores_mode:
  assumes "TestAll Init RunStack ss = Inr ss'"
      and "Loops_Mode ss = Train"
  shows "Loops_Mode ss' = Loops_Mode ss"
  using assms by (auto simp: TestAll_def Let_def split: option.splits sum.splits)

theorem TestAll_restores_mode_witness:
  "TestAll example_Init example_RunStack example_sim
     = Inr (projr (TestAll example_Init example_RunStack example_sim)) \<and>
   Loops_Mode example_sim = Train \<and>
   Loops_Mode (projr (TestAll example_Init example_RunStack example_sim)) = Loops_Mode example_sim"
proof -
  have h: "TestAll example_Init example_RunStack example_sim
             = Inr (projr (TestAll example_Init example_RunStack example_sim))"
    "Loops_Mode example_sim = Train"
    by (simp_all add: TestAll_def ResetAndRun_def example_RunStack_def example_sim_def Let_def)
  from TestAll_restores_mode [OF h] h show ?thesis by simp
qed

text \<open>
  Claim C4: the NZeroStop predicate of the Train Epoch loop is true exactly when the
  NZero statistic has reached the configured \<open>NZero\<close>, a configured value of 0 or less
  counting as 2. The predicate is a function of the state that only reads the
  configuration and the statistic; it keeps no count of its own.
\<close>

theorem NZeroStop_threshold:
  "NZeroStop ss \<longleftrightarrow>
     (if NZero (Config ss) \<le> 0 then 2 else NZero (Config ss)) \<le> Stats_Int ss ''NZero''"
  by (simp add: NZeroStop_def Let_def)

theorem NZeroStop_threshold_witness:
  "NZero (Config example_streak) = 0 \<and> Stats_Int example_streak ''NZero'' = 2 \<and>
   NZeroStop example_streak \<and>
   NZero (Config example_sim) = 5 \<and> Stats_Int example_sim ''NZero'' = 0 \<and>
   \<not> NZeroStop example_sim"
  using NZeroStop_threshold [of example_streak] NZeroStop_threshold [of example_sim]
  by (simp add: example_streak_def example_sim_def Stats_Int_def)

lemma smod_eq_0_iff: "0 < b \<Longrightarrow> (a smod b = 0) = (a mod b = 0)" for a b :: int
  by (auto simp: signed_modulo_int_def sgn_if mod_eq_0_iff_dvd abs_if)

lemma wrap64_id: "int64 x \<Longrightarrow> wrap64 x = x"
  by (simp add: wrap64_def int64_def)

text \<open>
  The 64-bit addition of the code agrees with the integers on the divisibility test, also
  at the largest counter value, where the sum wraps to \<open>- 2^63\<close>.
\<close>

lemma wrap64_succ_dvd:
  assumes "int64 cur" "0 < b"
  shows "(wrap64 (cur + 1) smod b = 0) = ((cur + 1) mod b = 0)"
proof (cases "cur + 1 < 2 ^ 63")
  case True
  with assms have "int64 (cur + 1)" by (simp add: int64_def)
  then show ?thesis using assms by (simp add: wrap64_id smod_eq_0_iff)
next
  case False
  with assms have c: "cur + 1 = 2 ^ 63" by (simp add: int64_def)
  have "wrap64 (2 ^ 63) = - (2 ^ 63)" by (simp add: wrap64_def)
  then show ?thesis using assms c by (simp add: smod_eq_0_iff mod_eq_0_iff_dvd)
qed

text \<open>
  Claim C5: the TestAtInterval callback of the Train Epoch loop starts the Test sub-run
  (\<open>TestAll\<close>) if and only if \<open>TestInterval\<close> is positive and the epoch counter plus one is
  a multiple of it, and is the identity otherwise; a \<open>TestInterval\<close> of 0 or less
  switches the periodic test off at every epoch.
\<close>

theorem TestAtInterval_launch:
  "(TestInterval (Config ss) \<le> 0 \<longrightarrow>
      TestAtInterval_cond ss = Inr False \<and> TestAtInterval Init RunStack ss = Inr ss) \<and>
   (Loops_Cur ss (Train, Epoch) = Some cur \<and> int64 cur \<longrightarrow>
      TestAtInterval_cond ss
        = Inr (0 < TestInterval (Config ss) \<and> (cur + 1) mod TestInterval (Config ss) = 0) \<and>
      TestAtInterval Init RunStack ss
        = (if 0 < TestInterval (Config ss) \<and> (cur + 1) mod TestInterval (Config ss) = 0
           then TestAll Init RunStack ss else Inr ss))"
  by (auto simp: TestAtInterval_def TestAtInterval_cond_def wrap64_succ_dvd)

theorem TestAtInterval_launch_witness:
  "TestInterval (Config example_sim) \<le> 0 \<and>
   TestAtInterval example_Init example_RunStack example_sim = Inr example_sim \<and>
   Loops_Cur example_interval (Train, Epoch) = Some 4 \<and> int64 4 \<and>
   TestInterval (Config example_interval) = 5 \<and>
   TestAtInterval_cond example_interval = Inr True \<and>
   TestAtInterval example_Init example_RunStack example_interval
     = TestAll example_Init example_RunStack example_interval"
proof -
  have h1: "TestInterval (Config example_sim) \<le> 0"
    by (simp add: example_sim_def)
  have h2: "Loops_Cur example_interval (Train, Epoch) = Some 4 \<and> int64 4"
    and ti: "TestInterval (Config example_interval) = 5"
    by (simp_all add: example_interval_def example_sim_def int64_def)
  from TestAtInterval_launch [where ss = example_sim and Init = example_Init
      and RunStack = example_RunStack and cur = 0] h1
  have a: "TestAtInterval example_Init example_RunStack example_sim = Inr example_sim"
    by blast
  from TestAtInterval_launch [where ss = example_interval and Init = example_Init
      and RunStack = example_RunStack and cur = 4] h2
  have b: "TestAtInterval_cond example_interval = Inr True"
    "TestAtInterval example_Init example_RunStack example_interval
       = TestAll example_Init example_RunStack example_interval"
    by (simp_all add: ti)
  from h1 h2 ti a b show ?thesis by simp
qed

section \<open>Properties of the registration of ApplyReward\<close>












section \<open>Properties of ApplyInputs\<close>

lemma LayerByName_Name: "LayerByName net nm = Some ly \<Longrightarrow> Name ly = nm"
  by (auto simp: LayerByName_def find_Some_iff)

lemma LayerByName_SetLayer_other:
  "Name ly' = nm \<Longrightarrow> nm \<noteq> nm2 \<Longrightarrow> LayerByName (SetLayer net nm ly') nm2 = LayerByName net nm2"
  by (induction net) (auto simp: LayerByName_def)

text \<open>The loop over the input and target layers never touches the layer named Rew.\<close>

lemma apply_loop_Rew:
  "apply_loop ev lays net = Inr net' \<Longrightarrow> LayerByName net' ''Rew'' = LayerByName net ''Rew''"
proof (induction lays arbitrary: net)
  case Nil
  then show ?case by simp
next
  case (Cons lnm lays)
  show ?case
  proof (cases "lnm = ''Rew''")
    case True
    with Cons show ?thesis by simp
  next
    case False
    from Cons.prems False obtain ly where ly: "LayerByName net lnm = Some ly"
      by (auto split: option.splits)
    show ?thesis
    proof (cases "State ev (Name ly)")
      case None
      with Cons False ly show ?thesis by simp
    next
      case (Some pats)
      with Cons.prems False ly
      have "apply_loop ev lays (SetLayer net lnm (ApplyExt pats ly)) = Inr net'" by simp
      then have "LayerByName net' ''Rew'' = LayerByName (SetLayer net lnm (ApplyExt pats ly)) ''Rew''"
        by (rule Cons.IH)
      also have "\<dots> = LayerByName net ''Rew''"
        using LayerByName_Name [OF ly] False
        by (intro LayerByName_SetLayer_other) (simp_all add: ApplyExt_def)
      finally show ?thesis .
    qed
  qed
qed

lemma LayerByName_InitExt:
  "LayerByName (InitExt net) nm =
     map_option (\<lambda>ly. if Off ly then ly else ly\<lparr>Ext := None\<rparr>) (LayerByName net nm)"
  by (induction net) (auto simp: LayerByName_def InitExt_def)

lemma example_rewarded_Rew:
  "LayerByName (Net example_rewarded) ''Rew''
     = Some ((example_layer ''Rew'' InputLayer [0])\<lparr>Ext := Some [1]\<rparr>)"
  by (simp add: example_rewarded_def example_sim_def example_net_def example_layer_def
      LayerByName_def ApplyExt_def)

lemma example_rewarded_ApplyInputs:
  "ApplyInputs example_Step example_String example_rewarded
     = Inr (projr (ApplyInputs example_Step example_String example_rewarded))"
  by (simp add: ApplyInputs_def example_rewarded_def example_sim_def example_net_def
      example_layer_def example_env_def example_Step_def LayersByType_def InitExt_def
      LayerByName_def State_def ApplyExt_def Let_def)

text \<open>
  Claim C10 as stated fails: \<open>ApplyInputs\<close> does not leave a reward pattern untouched. In
  the example the Rew layer holds the external input 1 before the call; the call
  succeeds, and afterwards the Rew layer has no external input, because \<open>net.InitExt()\<close>
  clears the external input of every layer.
\<close>

theorem ApplyInputs_Rew_counterexample:
  "map_option Ext (LayerByName (Net example_rewarded) ''Rew'') = Some (Some [1]) \<and>
   \<not> isl (ApplyInputs example_Step example_String example_rewarded) \<and>
   map_option Ext (LayerByName
       (Net (projr (ApplyInputs example_Step example_String example_rewarded))) ''Rew'')
     = Some None"
  by (simp add: ApplyInputs_def example_rewarded_def example_sim_def example_net_def
      example_layer_def example_env_def example_Step_def LayersByType_def InitExt_def
      LayerByName_def State_def ApplyExt_def Let_def)

text \<open>
  Claim C10, amended: \<open>ApplyInputs\<close> never applies a pattern of the environment to the
  layer named Rew, although that layer is among the input and target layers it iterates
  over. When it returns, the Rew layer is what \<open>net.InitExt()\<close> made of it: unchanged if
  the layer is switched off, and otherwise with its external input cleared, whatever
  pattern the environment holds for Rew. A reward pattern is written by \<open>ApplyReward\<close>
  only.
\<close>

theorem ApplyInputs_Rew:
  assumes "ApplyInputs Step String ss = Inr ss'"
      and "LayerByName (Net ss) ''Rew'' = Some rew"
  shows "LayerByName (Net ss') ''Rew'' = LayerByName (InitExt (Net ss)) ''Rew'' \<and>
         LayerByName (Net ss') ''Rew'' = Some (if Off rew then rew else rew\<lparr>Ext := None\<rparr>)"
proof -
  from assms(1) obtain ev0 net' where
    ev0: "Envs ss (Context_Mode ss) = Some ev0"
    and loop: "apply_loop (Step ev0) (LayersByType (Net ss) [InputLayer, TargetLayer])
                 (InitExt (Net ss)) = Inr net'"
    and ss': "Net ss' = net'"
    by (auto simp: ApplyInputs_def Let_def split: option.splits sum.splits)
  from apply_loop_Rew [OF loop] ss' assms(2) show ?thesis
    by (simp add: LayerByName_InitExt)
qed

theorem ApplyInputs_Rew_witness:
  "ApplyInputs example_Step example_String example_rewarded
     = Inr (projr (ApplyInputs example_Step example_String example_rewarded)) \<and>
   LayerByName (Net example_rewarded) ''Rew''
     = Some ((example_layer ''Rew'' InputLayer [0])\<lparr>Ext := Some [1]\<rparr>) \<and>
   State (example_Step example_env) ''Rew'' = Some [0] \<and>
   LayerByName (Net (projr (ApplyInputs example_Step example_String example_rewarded))) ''Rew''
     = Some (example_layer ''Rew'' InputLayer [0])"
proof -
  have "LayerByName (Net (projr (ApplyInputs example_Step example_String example_rewarded))) ''Rew''
     = Some (example_layer ''Rew'' InputLayer [0])"
    using ApplyInputs_Rew [OF example_rewarded_ApplyInputs example_rewarded_Rew, THEN conjunct2]
    by (simp add: example_layer_def)
  moreover have "State (example_Step example_env) ''Rew'' = Some [0]"
    by (simp add: State_def example_Step_def example_env_def)
  ultimately show ?thesis
    using example_rewarded_ApplyInputs example_rewarded_Rew by simp
qed

end
